theory Spec2Isabelle
  imports Complex_Main "HOL-Library.AList"
begin

section \<open>Python values\<close>

text \<open>
  A Python \<open>str\<close> is a sequence of Unicode code points. The remediation texts of
  \<open>model.py\<close> contain code points far above 255, so a \<open>str\<close> is a list of
  natural numbers here; \<open>lit\<close> embeds an ASCII literal of the source. Keys of the
  fixed-shape dictionaries are ASCII literals of the source and stay Isabelle strings.
\<close>

type_synonym pystr = "nat list"

definition lit :: "string \<Rightarrow> pystr" where
  "lit s = map of_char s"

text \<open>
  The values that occur in the dictionaries of the program. A Python \<open>float\<close> is
  idealised as an exact rational: the representation error of IEEE doubles is not part of
  this model.
\<close>

datatype pyval = PNone | PBool bool | PInt int | PFloat rat | PStr pystr

type_synonym pydict = "string \<rightharpoonup> pyval"

text \<open>
  A raised exception, as far as the program looks at it: \<open>type(e).__name__\<close>,
  \<open>str(e)\<close>, and whether the class derives from \<open>Exception\<close> (which decides
  whether \<open>except Exception\<close> catches it).
\<close>

record py_exception =
  ex_type :: pystr
  ex_msg :: pystr
  ex_is_Exception :: bool

definition KeyError :: "pystr \<Rightarrow> py_exception" where
  "KeyError shown = \<lparr>ex_type = lit ''KeyError'', ex_msg = shown, ex_is_Exception = True\<rparr>"

definition TypeError :: "pystr \<Rightarrow> py_exception" where
  "TypeError m = \<lparr>ex_type = lit ''TypeError'', ex_msg = m, ex_is_Exception = True\<rparr>"

definition ValueError :: "pystr \<Rightarrow> py_exception" where
  "ValueError m = \<lparr>ex_type = lit ''ValueError'', ex_msg = m, ex_is_Exception = True\<rparr>"

definition FileNotFoundError :: "pystr \<Rightarrow> py_exception" where
  "FileNotFoundError m =
     \<lparr>ex_type = lit ''FileNotFoundError'', ex_msg = m, ex_is_Exception = True\<rparr>"

text \<open>What a call does: it returns, an exception leaves it, or it never comes back.\<close>

datatype 'a outcome = Returns 'a | Propagates py_exception | Hangs

section \<open>Operators on values\<close>

text \<open>\<open>d[k]\<close> raises \<open>KeyError\<close>, whose text is the \<open>repr\<close> of the key.\<close>

definition getitem :: "pydict \<Rightarrow> string \<Rightarrow> py_exception + pyval" where
  "getitem d k =
     (case d k of
        None \<Rightarrow> Inl (KeyError (lit ([CHR 0x27] @ k @ [CHR 0x27])))
      | Some v \<Rightarrow> Inr v)"

definition type_name :: "pyval \<Rightarrow> string" where
  "type_name v =
     (case v of PNone \<Rightarrow> ''NoneType'' | PBool _ \<Rightarrow> ''bool'' | PInt _ \<Rightarrow> ''int''
      | PFloat _ \<Rightarrow> ''float'' | PStr _ \<Rightarrow> ''str'')"

text \<open>\<open>bool\<close> is a subclass of \<open>int\<close>; both mix with \<open>float\<close>.\<close>

definition int_like :: "pyval \<Rightarrow> int option" where
  "int_like v =
     (case v of PInt i \<Rightarrow> Some i | PBool b \<Rightarrow> Some (if b then 1 else 0) | _ \<Rightarrow> None)"

definition num_like :: "pyval \<Rightarrow> rat option" where
  "num_like v =
     (case v of PFloat x \<Rightarrow> Some x
      | _ \<Rightarrow> (case int_like v of Some i \<Rightarrow> Some (of_int i) | None \<Rightarrow> None))"

definition unsupported :: "string \<Rightarrow> pyval \<Rightarrow> pyval \<Rightarrow> py_exception" where
  "unsupported opname a b =
     TypeError (lit (''unsupported operand type(s) for '' @ opname @ '': '' @ [CHR 0x27]
       @ type_name a @ [CHR 0x27] @ '' and '' @ [CHR 0x27] @ type_name b @ [CHR 0x27]))"

definition arith ::
  "(int \<Rightarrow> int \<Rightarrow> int) \<Rightarrow> (rat \<Rightarrow> rat \<Rightarrow> rat) \<Rightarrow> string \<Rightarrow> pyval \<Rightarrow> pyval
     \<Rightarrow> py_exception + pyval" where
  "arith on_int on_float opname a b =
     (case (int_like a, int_like b) of
        (Some x, Some y) \<Rightarrow> Inr (PInt (on_int x y))
      | _ \<Rightarrow>
          (case (num_like a, num_like b) of
             (Some x, Some y) \<Rightarrow> Inr (PFloat (on_float x y))
           | _ \<Rightarrow> Inl (unsupported opname a b)))"

definition py_add :: "pyval \<Rightarrow> pyval \<Rightarrow> py_exception + pyval" where
  "py_add a b =
     (case (a, b) of
        (PStr s, PStr t) \<Rightarrow> Inr (PStr (s @ t))
      | _ \<Rightarrow> arith (+) (+) ''+'' a b)"

definition py_sub :: "pyval \<Rightarrow> pyval \<Rightarrow> py_exception + pyval" where
  "py_sub a b = arith (-) (-) ''-'' a b"

definition py_mul :: "pyval \<Rightarrow> pyval \<Rightarrow> py_exception + pyval" where
  "py_mul a b =
     (case (a, int_like b) of
        (PStr s, Some n) \<Rightarrow> Inr (PStr (concat (replicate (nat n) s)))
      | _ \<Rightarrow>
          (case (int_like a, b) of
             (Some n, PStr s) \<Rightarrow> Inr (PStr (concat (replicate (nat n) s)))
           | _ \<Rightarrow> arith (*) (*) ''*'' a b))"

text \<open>
  \<open>min(a, b)\<close> and \<open>max(a, b)\<close> keep the first argument unless the second is
  strictly smaller (larger). The program compares with an integer literal only, so the
  comparison is the numeric one, and any other operand is a \<open>TypeError\<close>.
\<close>

definition py_less :: "pyval \<Rightarrow> pyval \<Rightarrow> py_exception + bool" where
  "py_less a b =
     (case (num_like a, num_like b) of
        (Some x, Some y) \<Rightarrow> Inr (x < y)
      | _ \<Rightarrow>
          Inl (TypeError (lit ([CHR 0x27, CHR 0x3C, CHR 0x27]
            @ '' not supported between instances of '' @ [CHR 0x27] @ type_name a
            @ [CHR 0x27] @ '' and '' @ [CHR 0x27] @ type_name b @ [CHR 0x27]))))"

definition py_min :: "pyval \<Rightarrow> pyval \<Rightarrow> py_exception + pyval" where
  "py_min a b = (case py_less b a of Inl e \<Rightarrow> Inl e | Inr lt \<Rightarrow> Inr (if lt then b else a))"

definition py_max :: "pyval \<Rightarrow> pyval \<Rightarrow> py_exception + pyval" where
  "py_max a b = (case py_less a b of Inl e \<Rightarrow> Inl e | Inr lt \<Rightarrow> Inr (if lt then b else a))"

section \<open>Text primitives of \<open>multi_language_features.py\<close>\<close>

text \<open>\<open>code.split("\n")\<close>: the segments between separators; the empty text has one.\<close>

fun split :: "nat \<Rightarrow> pystr \<Rightarrow> pystr list" where
  "split sep [] = [[]]"
| "split sep (c # cs) =
     (if c = sep then [] # split sep cs
      else (case split sep cs of
              [] \<Rightarrow> [[c]]
            | seg # segs \<Rightarrow> (c # seg) # segs))"

text \<open>\<open>code.count("{")\<close> for a separator of one character.\<close>

definition count :: "pystr \<Rightarrow> nat \<Rightarrow> nat" where
  "count s c = length (filter (\<lambda>x. x = c) s)"

text \<open>
  The patterns of the source all have the shape \<open>\b(w1|...|wn)\b\<close> with non-empty
  literal alternatives. \<open>\w\<close> on a \<open>str\<close> pattern is "alphanumeric in the Unicode
  database, or underscore"; the database is not part of the repository, so its
  alphanumeric test is the parameter \<open>isalnum\<close>.
\<close>

definition is_word :: "(nat \<Rightarrow> bool) \<Rightarrow> nat \<Rightarrow> bool" where
  "is_word isalnum c = (isalnum c \<or> c = 95)"

text \<open>\<open>\b\<close> between the character before the position and the rest of the text.\<close>

definition at_boundary :: "(nat \<Rightarrow> bool) \<Rightarrow> nat option \<Rightarrow> pystr \<Rightarrow> bool" where
  "at_boundary isalnum prev rest =
     ((case prev of None \<Rightarrow> False | Some p \<Rightarrow> is_word isalnum p)
      \<noteq> (case rest of [] \<Rightarrow> False | c # _ \<Rightarrow> is_word isalnum c))"

text \<open>
  One attempt of the pattern at a position: a boundary, then the first alternative, in
  the order of the pattern, that is a prefix of the rest and is followed by a boundary.
\<close>

definition alt_matches :: "(nat \<Rightarrow> bool) \<Rightarrow> pystr \<Rightarrow> pystr \<Rightarrow> bool" where
  "alt_matches isalnum rest w =
     (w \<noteq> [] \<and> take (length w) rest = w
      \<and> at_boundary isalnum (Some (last w)) (drop (length w) rest))"

definition match_here :: "(nat \<Rightarrow> bool) \<Rightarrow> pystr list \<Rightarrow> nat option \<Rightarrow> pystr \<Rightarrow> pystr option" where
  "match_here isalnum alts prev rest =
     (if at_boundary isalnum prev rest then find (alt_matches isalnum rest) alts else None)"

text \<open>
  \<open>re.findall\<close>: scan from the left; after a match continue behind it, otherwise move
  one character on. The result lists the text of the group of every match.
\<close>

function scan :: "(nat \<Rightarrow> bool) \<Rightarrow> pystr list \<Rightarrow> nat option \<Rightarrow> pystr \<Rightarrow> pystr list" where
  "scan isalnum alts prev rest =
     (case match_here isalnum alts prev rest of
        Some w \<Rightarrow> w # scan isalnum alts (Some (last w)) (drop (length w) rest)
      | None \<Rightarrow>
          (case rest of
             [] \<Rightarrow> []
           | c # cs \<Rightarrow> scan isalnum alts (Some c) cs))"
  by pat_completeness auto
termination
proof (relation "measure (\<lambda>(isalnum, alts, prev, rest). length rest)")
  show "wf (measure (\<lambda>(isalnum, alts, prev, rest). length rest))"
    by simp
next
  fix isalnum :: "nat \<Rightarrow> bool" and alts :: "pystr list" and prev :: "nat option"
    and rest w :: pystr
  assume "match_here isalnum alts prev rest = Some w"
  then have "alt_matches isalnum rest w"
    by (auto simp: match_here_def find_Some_iff split: if_splits)
  then have "w \<noteq> []" and "take (length w) rest = w"
    by (simp_all add: alt_matches_def)
  then have "0 < length w" and "length w \<le> length rest"
  proof -
    assume nonempty: "w \<noteq> []" and pre: "take (length w) rest = w"
    show "0 < length w"
      using nonempty by simp
    have "length (take (length w) rest) = length w"
      using pre by simp
    then show "length w \<le> length rest"
      by simp
  qed
  then show "((isalnum, alts, Some (last w), drop (length w) rest), (isalnum, alts, prev, rest))
      \<in> measure (\<lambda>(isalnum, alts, prev, rest). length rest)"
    by (cases w) simp_all
next
  fix isalnum :: "nat \<Rightarrow> bool" and alts :: "pystr list" and prev :: "nat option"
    and rest cs :: pystr and c :: nat
  assume "rest = c # cs"
  then show "((isalnum, alts, Some c, cs), (isalnum, alts, prev, rest))
      \<in> measure (\<lambda>(isalnum, alts, prev, rest). length rest)"
    by simp
qed

definition findall :: "(nat \<Rightarrow> bool) \<Rightarrow> pystr list \<Rightarrow> pystr \<Rightarrow> pystr list" where
  "findall isalnum alts code = scan isalnum alts None code"

text \<open>\<open>re.search\<close>: the first match, if there is one.\<close>

definition search :: "(nat \<Rightarrow> bool) \<Rightarrow> pystr list \<Rightarrow> pystr \<Rightarrow> pystr option" where
  "search isalnum alts code =
     (case findall isalnum alts code of [] \<Rightarrow> None | m # _ \<Rightarrow> Some m)"

section \<open>\<open>extract_general_features\<close>\<close>

definition extract_general_features ::
  "(nat \<Rightarrow> bool) \<Rightarrow> pystr \<Rightarrow> pystr \<Rightarrow> py_exception + pydict" where
  "extract_general_features isalnum code language =
     (let features = Map.empty;
          lines = split 10 code;
          features = features(''num_lines'' \<mapsto> PInt (int (length lines)));
          features = features(''num_loops'' \<mapsto>
            PInt (int (length (findall isalnum [lit ''for'', lit ''while''] code))));
          features =
            (if language = lit ''Python'' then
               features(''num_functions'' \<mapsto>
                 PInt (int (length (findall isalnum [lit ''def''] code))))
             else if language = lit ''Java'' then
               features(''num_functions'' \<mapsto>
                 PInt (int (length (findall isalnum
                   [lit ''public'', lit ''private'', lit ''protected''] code))))
             else if language = lit ''C++'' then
               features(''num_functions'' \<mapsto>
                 PInt (int (length (findall isalnum
                   [lit ''int'', lit ''void'', lit ''float'', lit ''double'', lit ''string'']
                   code))))
             else if language = lit ''JavaScript'' then
               features(''num_functions'' \<mapsto>
                 PInt (int (length (findall isalnum [lit ''function''] code))))
             else
               features(''num_functions'' \<mapsto> PInt 0));
          features = features(''has_try_except'' \<mapsto>
            PBool (search isalnum [lit ''try'', lit ''catch'', lit ''except''] code \<noteq> None));
          features = features(''nested_depth'' \<mapsto> PInt (int (count code 123)));
          features = features(''avg_var_name_length'' \<mapsto> PInt 5)
      in (case getitem features ''num_loops'' of
            Inl e \<Rightarrow> Inl e
          | Inr loops \<Rightarrow>
              (case getitem features ''num_functions'' of
                 Inl e \<Rightarrow> Inl e
               | Inr functions \<Rightarrow>
                   (case py_add loops functions of
                      Inl e \<Rightarrow> Inl e
                    | Inr complexity \<Rightarrow>
                        (case py_min (PInt 10) complexity of
                           Inl e \<Rightarrow> Inl e
                         | Inr m \<Rightarrow> Inr (features(''complexity_score'' \<mapsto> m)))))))"

section \<open>\<open>model.py\<close>: labels, suggestions and the trained model\<close>

definition BUG_LABELS :: "int \<rightharpoonup> pystr" where
  "BUG_LABELS =
     [0 \<mapsto> lit ''No Bug (Clean Code)'',
      1 \<mapsto> lit ''Performance Issue'',
      2 \<mapsto> lit ''Logical Error'',
      3 \<mapsto> lit ''Code Smell'']"

text \<open>
  The texts start with a pictograph (code points 0x2705, 0x26A0 0xFE0F, 0x1F50D,
  0x1F9F9); the dash of the first performance hint is 0x2014.
\<close>

definition BUG_SUGGESTIONS :: "int \<rightharpoonup> pystr list" where
  "BUG_SUGGESTIONS =
     [0 \<mapsto>
        [0x2705 # lit '' Code looks clean! No major issues detected.'',
         lit ''Consider adding docstrings for documentation.''],
      1 \<mapsto>
        [[0x26A0, 0xFE0F] @ lit '' Optimize loops '' @ [0x2014]
           @ lit '' avoid unnecessary iterations.'',
         lit ''Use list comprehensions instead of manual loops where possible.'',
         lit ''Consider using built-in functions (map, filter, sum) for better performance.'',
         lit ''Reduce nested depth to improve readability and speed.''],
      2 \<mapsto>
        [0x1F50D # lit '' Check your conditional logic '' @ [0x2014]
           @ lit '' edge cases may not be handled.'',
         lit ''Add input validation to prevent unexpected behavior.'',
         lit ''Add try-except blocks to catch runtime errors.'',
         lit ''Test with boundary values (0, negative numbers, empty inputs).''],
      3 \<mapsto>
        [0x1F9F9 # lit '' Use descriptive variable names instead of single letters.'',
         lit ''Break large functions into smaller, reusable ones.'',
         lit ''Remove unused variables and imports.'',
         lit ''Follow PEP 8 naming conventions.'']]"

text \<open>
  The unpickled classifier is opaque: its two operations on one row of feature values.
  Each may raise.
\<close>

record model =
  predict :: "pyval list \<Rightarrow> py_exception + int"
  predict_proba :: "pyval list \<Rightarrow> py_exception + rat list"

text \<open>
  What is at \<open>MODEL_PATH\<close>: nothing, a file that \<open>joblib.load\<close> rejects with an
  exception, or a pickled model. The world also counts the calls of \<open>joblib.load\<close>, a
  ghost counter that the program does not read.
\<close>

datatype artifact = Missing | Corrupt py_exception | Pickled model

record world =
  artifact :: artifact
  loads :: nat

definition load_model :: "world \<Rightarrow> (py_exception + model) \<times> world" where
  "load_model w =
     (case artifact w of
        Missing \<Rightarrow>
          (Inl (FileNotFoundError (lit (''Trained model not found! Run '' @ [CHR 0x27]
             @ ''python train_model.py'' @ [CHR 0x27] @ '' first.''))), w)
      | Corrupt e \<Rightarrow> (Inl e, w\<lparr>loads := loads w + 1\<rparr>)
      | Pickled m \<Rightarrow> (Inr m, w\<lparr>loads := loads w + 1\<rparr>))"

text \<open>Decimal text of an integer, as \<open>str\<close> and an f-string give it.\<close>

fun digits :: "nat \<Rightarrow> pystr" where
  "digits n = (if n < 10 then [48 + n] else digits (n div 10) @ [48 + n mod 10])"

definition str_int :: "int \<Rightarrow> pystr" where
  "str_int i = (if i < 0 then 45 # digits (nat (- i)) else digits (nat i))"

text \<open>
  \<open>round(x, 1)\<close>: the nearest multiple of one tenth, a tie going to the even
  neighbour.
\<close>

definition round_half_even :: "rat \<Rightarrow> int" where
  "round_half_even q =
     (let f = \<lfloor>q\<rfloor>; d = q - of_int f
      in if d < 1 / 2 then f
         else if 1 / 2 < d then f + 1
         else if even f then f else f + 1)"

definition round1 :: "rat \<Rightarrow> rat" where
  "round1 x = of_int (round_half_even (x * 10)) / 10"

record classification =
  bug_type :: int
  label :: pystr
  confidence :: rat
  suggestions :: "pystr list"
  all_probabilities :: "(pystr \<times> rat) list"

definition feature_order :: "string list" where
  "feature_order =
     [''num_lines'', ''num_functions'', ''num_loops'',
      ''nested_depth'', ''has_try_except'', ''avg_var_name_length'',
      ''complexity_score'']"

text \<open>\<open>[features[f] for f in feature_order]\<close>\<close>

fun feature_vector :: "pydict \<Rightarrow> string list \<Rightarrow> py_exception + pyval list" where
  "feature_vector features [] = Inr []"
| "feature_vector features (f # fs) =
     (case getitem features f of
        Inl e \<Rightarrow> Inl e
      | Inr v \<Rightarrow>
          (case feature_vector features fs of
             Inl e \<Rightarrow> Inl e
           | Inr vs \<Rightarrow> Inr (v # vs)))"

text \<open>
  The dictionary comprehension over \<open>enumerate(confidence_scores)\<close>: a later entry
  with the same label overwrites the earlier one, and \<open>BUG_LABELS[i]\<close> raises for
  an index that is not a key.
\<close>

fun label_probabilities ::
  "nat \<Rightarrow> rat list \<Rightarrow> (pystr \<times> rat) list \<Rightarrow> py_exception + (pystr \<times> rat) list" where
  "label_probabilities i [] acc = Inr acc"
| "label_probabilities i (p # ps) acc =
     (case BUG_LABELS (int i) of
        None \<Rightarrow> Inl (KeyError (str_int (int i)))
      | Some l \<Rightarrow> label_probabilities (Suc i) ps (AList.update l (round1 (p * 100)) acc))"

definition predict_bug :: "pydict \<Rightarrow> world \<Rightarrow> (py_exception + classification) \<times> world" where
  "predict_bug features w =
     (case load_model w of
        (Inl e, w') \<Rightarrow> (Inl e, w')
      | (Inr m, w') \<Rightarrow>
          (case feature_vector features feature_order of
             Inl e \<Rightarrow> (Inl e, w')
           | Inr row \<Rightarrow>
               (case predict m row of
                  Inl e \<Rightarrow> (Inl e, w')
                | Inr prediction \<Rightarrow>
                    (case predict_proba m row of
                       Inl e \<Rightarrow> (Inl e, w')
                     | Inr confidence_scores \<Rightarrow>
                         (case confidence_scores of
                            [] \<Rightarrow> (Inl (ValueError (lit ''max() arg is an empty sequence'')), w')
                          | p # ps \<Rightarrow>
                              (case label_probabilities 0 confidence_scores [] of
                                 Inl e \<Rightarrow> (Inl e, w')
                               | Inr probabilities \<Rightarrow>
                                   (Inr \<lparr>bug_type = prediction,
                                         label = (case BUG_LABELS prediction of
                                                    None \<Rightarrow> lit ''Unknown''
                                                  | Some l \<Rightarrow> l),
                                         confidence = round1 (fold max ps p * 100),
                                         suggestions = (case BUG_SUGGESTIONS prediction of
                                                          None \<Rightarrow> []
                                                        | Some xs \<Rightarrow> xs),
                                         all_probabilities = probabilities\<rparr>, w')))))))"

section \<open>\<open>model.py\<close>: static and dynamic analysis\<close>

text \<open>
  \<open>ast.parse\<close> is the interpreter's parser: it accepts the text, raises
  \<open>SyntaxError\<close> (or a subclass) with its \<open>lineno\<close> and \<open>msg\<close>, or raises
  an exception of another class.
\<close>

datatype parse_outcome =
  Parsed
| Raised_SyntaxError "int option" pystr
| Raised_other py_exception

definition check_syntax :: "(pystr \<Rightarrow> parse_outcome) \<Rightarrow> pystr \<Rightarrow> pydict outcome" where
  "check_syntax ast_parse code =
     (case ast_parse code of
        Parsed \<Rightarrow> Returns [''valid'' \<mapsto> PBool True, ''error'' \<mapsto> PNone]
      | Raised_SyntaxError lineno msg \<Rightarrow>
          Returns [''valid'' \<mapsto> PBool False,
                   ''error'' \<mapsto> PStr (lit ''Syntax Error at line ''
                      @ (case lineno of None \<Rightarrow> lit ''None'' | Some n \<Rightarrow> str_int n)
                      @ lit '': '' @ msg)]
      | Raised_other e \<Rightarrow> Propagates e)"

text \<open>The names left in \<open>__builtins__\<close> for the executed snippet.\<close>

definition safe_builtins :: "string list" where
  "safe_builtins =
     [''print'', ''range'', ''len'',
      ''int'', ''float'', ''str'',
      ''list'', ''dict'', ''tuple'',
      ''set'', ''bool'', ''type'',
      ''enumerate'', ''zip'',
      ''min'', ''max'', ''sum'', ''abs'',
      ''round'', ''sorted'', ''reversed'',
      ''True'', ''False'', ''None'',
      ''isinstance'', ''issubclass'',
      ''Exception'', ''ValueError'',
      ''TypeError'', ''KeyError'',
      ''IndexError'', ''ZeroDivisionError'']"

text \<open>
  \<open>exec(code, safe_globals)\<close> is the interpreter: the snippet runs to its end, raises,
  or does not stop.
\<close>

datatype exec_outcome = Completed | Raised py_exception | Diverges

definition run_code_safely ::
  "(string list \<Rightarrow> pystr \<Rightarrow> exec_outcome) \<Rightarrow> pystr \<Rightarrow> pydict outcome" where
  "run_code_safely exec code =
     (case exec safe_builtins code of
        Completed \<Rightarrow> Returns [''success'' \<mapsto> PBool True, ''error'' \<mapsto> PNone]
      | Raised e \<Rightarrow>
          (if ex_is_Exception e then
             Returns [''success'' \<mapsto> PBool False,
                      ''error'' \<mapsto> PStr (ex_type e @ lit '': '' @ ex_msg e)]
           else Propagates e)
      | Diverges \<Rightarrow> Hangs)"

section \<open>\<open>app.py\<close>: the handler of "Analyze Code"\<close>

text \<open>\<open>str.strip()\<close> removes the white space of \<open>str.isspace\<close> at both ends.\<close>

definition isspace :: "nat \<Rightarrow> bool" where
  "isspace c =
     (c \<in> set [9, 10, 11, 12, 13, 28, 29, 30, 31, 32, 133, 160, 5760, 8192, 8193, 8194,
        8195, 8196, 8197, 8198, 8199, 8200, 8201, 8202, 8232, 8233, 8239, 8287, 12288])"

definition strip :: "pystr \<Rightarrow> pystr" where
  "strip s = rev (dropWhile isspace (rev (dropWhile isspace s)))"

text \<open>\<open>max(0, 100 - (features["complexity_score"] * 8))\<close>\<close>

definition score :: "pydict \<Rightarrow> py_exception + pyval" where
  "score features =
     (case getitem features ''complexity_score'' of
        Inl e \<Rightarrow> Inl e
      | Inr c \<Rightarrow>
          (case py_mul c (PInt 8) of
             Inl e \<Rightarrow> Inl e
           | Inr product \<Rightarrow>
               (case py_sub (PInt 100) product of
                  Inl e \<Rightarrow> Inl e
                | Inr difference \<Rightarrow> py_max (PInt 0) difference)))"

record analysis =
  a_time :: pystr
  a_language :: pystr
  a_syntax :: pydict
  a_runtime :: pydict
  a_features :: pydict
  a_prediction :: "classification option"
  a_score :: pyval

record session =
  analysis_data :: "analysis option"
  history :: "analysis list"

text \<open>
  What the handler needs from outside the repository: the Unicode database, the parser,
  the interpreter and the clock (already formatted).
\<close>

record host =
  unicode_isalnum :: "nat \<Rightarrow> bool"
  ast_parse :: "pystr \<Rightarrow> parse_outcome"
  py_exec :: "string list \<Rightarrow> pystr \<Rightarrow> exec_outcome"
  now :: pystr

text \<open>Lines 66 to 70: only Python text is parsed.\<close>

definition syntax_step :: "host \<Rightarrow> pystr \<Rightarrow> pystr \<Rightarrow> pydict outcome" where
  "syntax_step h code_input language =
     (if language = lit ''Python'' then check_syntax (ast_parse h) code_input
      else Returns [''valid'' \<mapsto> PBool True])"

text \<open>Lines 75 to 82: only Python text is executed.\<close>

definition runtime_step :: "host \<Rightarrow> pystr \<Rightarrow> pystr \<Rightarrow> pydict outcome" where
  "runtime_step h code_input language =
     (if language = lit ''Python'' then run_code_safely (py_exec h) code_input
      else Returns [''success'' \<mapsto> PBool True,
                    ''error'' \<mapsto> PStr (lit ''Execution skipped for '' @ language)])"

text \<open>
  The body of the button handler. Blank input only shows a warning; otherwise the record
  is stored as the current analysis and appended to the history. The bare
  \<open>except:\<close> around \<open>predict_bug\<close> turns every exception into "no prediction".
\<close>

definition analyze_code ::
  "host \<Rightarrow> pystr \<Rightarrow> pystr \<Rightarrow> session \<times> world \<Rightarrow> (session \<times> world) outcome" where
  "analyze_code h code_input language st =
     (if strip code_input = [] then Returns st
      else
        (case syntax_step h code_input language of
           Propagates e \<Rightarrow> Propagates e
         | Hangs \<Rightarrow> Hangs
         | Returns syntax_result \<Rightarrow>
             (case extract_general_features (unicode_isalnum h) code_input language of
                Inl e \<Rightarrow> Propagates e
              | Inr features \<Rightarrow>
                  (case runtime_step h code_input language of
                     Propagates e \<Rightarrow> Propagates e
                   | Hangs \<Rightarrow> Hangs
                   | Returns runtime_result \<Rightarrow>
                       (case predict_bug features (snd st) of
                          (outcome, w') \<Rightarrow>
                            (let prediction = (case outcome of Inl e \<Rightarrow> None | Inr r \<Rightarrow> Some r)
                             in (case score features of
                                   Inl e \<Rightarrow> Propagates e
                                 | Inr score_value \<Rightarrow>
                                     (let result =
                                        \<lparr>a_time = now h,
                                         a_language = language,
                                         a_syntax = syntax_result,
                                         a_runtime = runtime_result,
                                         a_features = features,
                                         a_prediction = prediction,
                                         a_score = score_value\<rparr>
                                      in Returns
                                           (\<lparr>analysis_data = Some result,
                                             history = history (fst st) @ [result]\<rparr>,
                                            w')))))))))"

text \<open>Requests served one after the other by one process, each calling \<open>predict_bug\<close>.\<close>

fun predict_sequence ::
  "pydict list \<Rightarrow> world \<Rightarrow> (py_exception + classification) list \<times> world" where
  "predict_sequence [] w = ([], w)"
| "predict_sequence (features # rest) w =
     (case predict_bug features w of
        (r, w') \<Rightarrow>
          (case predict_sequence rest w' of
             (rs, w'') \<Rightarrow> (r # rs, w'')))"

section \<open>Sample inputs\<close>

text \<open>The alphanumeric test of the Unicode database on ASCII text.\<close>

definition ascii_isalnum :: "nat \<Rightarrow> bool" where
  "ascii_isalnum c =
     ((48 \<le> c \<and> c \<le> 57) \<or> (65 \<le> c \<and> c \<le> 90) \<or> (97 \<le> c \<and> c \<le> 122))"

text \<open>A Python function of six lines with one loop and a \<open>try\<close> block.\<close>

definition looping_snippet :: pystr where
  "looping_snippet =
     lit ''def f():'' @ [10] @ lit ''  for i in range(3):'' @ [10] @ lit ''    try:'' @ [10]
     @ lit ''      pass'' @ [10] @ lit ''    except Exception:'' @ [10] @ lit ''      pass''"

text \<open>The record of features that the extractor returns for that snippet.\<close>

definition snippet_features :: pydict where
  "snippet_features =
     [''num_lines'' \<mapsto> PInt 6,
      ''num_loops'' \<mapsto> PInt 1,
      ''num_functions'' \<mapsto> PInt 1,
      ''has_try_except'' \<mapsto> PBool True,
      ''nested_depth'' \<mapsto> PInt 0,
      ''avg_var_name_length'' \<mapsto> PInt 5,
      ''complexity_score'' \<mapsto> PInt 2]"

text \<open>
  Three classifiers over the four classes. The first two answer with the class of
  highest probability; the third answers class 0 although class 1 is the most probable,
  as a model whose two operations are computed independently may.
\<close>

definition logical_model :: model where
  "logical_model =
     \<lparr>predict = (\<lambda>row. Inr 2),
      predict_proba = (\<lambda>row. Inr [1 / 8, 1 / 8, 5 / 8, 1 / 8])\<rparr>"

definition clean_model :: model where
  "clean_model =
     \<lparr>predict = (\<lambda>row. Inr 0),
      predict_proba = (\<lambda>row. Inr [3 / 4, 1 / 4, 0, 0])\<rparr>"


text \<open>
  What CPython 3.11 does on four texts: \<open>ast.parse\<close> on a broken definition, on a
  null character and on 5000 nested negations; \<open>exec\<close> on a division by zero and on
  a \<open>raise\<close> of \<open>BaseException\<close>, which the allow-list reaches as
  \<open>Exception.__base__\<close>.
\<close>

definition broken_def :: pystr where
  "broken_def = lit ''def f(:'' @ [10] @ lit '' pass''"

definition deep_negation :: pystr where
  "deep_negation = 45 # replicate 4999 45 @ [49]"

definition sample_parse :: "pystr \<Rightarrow> parse_outcome" where
  "sample_parse code =
     (if code = broken_def then Raised_SyntaxError (Some 1) (lit ''invalid syntax'')
      else if code = [0] then
        Raised_SyntaxError None (lit ''source code string cannot contain null bytes'')
      else if code = deep_negation then
        Raised_other
          \<lparr>ex_type = lit ''RecursionError'',
           ex_msg = lit ''maximum recursion depth exceeded during ast construction'',
           ex_is_Exception = True\<rparr>
      else Parsed)"

definition sample_exec :: "string list \<Rightarrow> pystr \<Rightarrow> exec_outcome" where
  "sample_exec builtins code =
     (if code = lit ''1/0'' then
        Raised \<lparr>ex_type = lit ''ZeroDivisionError'', ex_msg = lit ''division by zero'',
                ex_is_Exception = True\<rparr>
      else if code = lit ''raise Exception.__base__()'' then
        Raised \<lparr>ex_type = lit ''BaseException'', ex_msg = [], ex_is_Exception = False\<rparr>
      else Completed)"

definition sample_host :: host where
  "sample_host =
     \<lparr>unicode_isalnum = ascii_isalnum,
      ast_parse = sample_parse,
      py_exec = sample_exec,
      now = lit ''2024-01-01 00:00:00''\<rparr>"

section \<open>The feature extractor\<close>

lemma length_split: "length (split sep s) = Suc (count s sep)"
  by (induction s) (auto simp: count_def split: list.splits)

lemma py_add_int: "py_add (PInt a) (PInt b) = Inr (PInt (a + b))"
  by (simp add: py_add_def arith_def int_like_def)

lemma py_min_int: "py_min (PInt a) (PInt b) = Inr (PInt (min a b))"
  by (auto simp: py_min_def py_less_def num_like_def int_like_def min_def)

lemma py_max_int: "py_max (PInt a) (PInt b) = Inr (PInt (max a b))"
  by (auto simp: py_max_def py_less_def num_like_def int_like_def max_def)

lemma py_mul_int: "py_mul (PInt a) (PInt b) = Inr (PInt (a * b))"
  by (simp add: py_mul_def arith_def int_like_def)

lemma py_sub_int: "py_sub (PInt a) (PInt b) = Inr (PInt (a - b))"
  by (simp add: py_sub_def arith_def int_like_def)

lemma extract_shape:
  "extract_general_features isalnum code language =
     Inr [''num_lines'' \<mapsto> PInt (int (length (split 10 code))),
          ''num_loops'' \<mapsto> PInt (int (length (findall isalnum [lit ''for'', lit ''while''] code))),
          ''num_functions'' \<mapsto> PInt (int
             (if language = lit ''Python'' then length (findall isalnum [lit ''def''] code)
              else if language = lit ''Java'' then
                length (findall isalnum [lit ''public'', lit ''private'', lit ''protected''] code)
              else if language = lit ''C++'' then
                length (findall isalnum
                   [lit ''int'', lit ''void'', lit ''float'', lit ''double'', lit ''string''] code)
              else if language = lit ''JavaScript'' then
                length (findall isalnum [lit ''function''] code)
              else 0)),
          ''has_try_except'' \<mapsto> PBool (search isalnum [lit ''try'', lit ''catch'', lit ''except''] code \<noteq> None),
          ''nested_depth'' \<mapsto> PInt (int (count code 123)),
          ''avg_var_name_length'' \<mapsto> PInt 5,
          ''complexity_score'' \<mapsto> PInt (min 10
             (int (length (findall isalnum [lit ''for'', lit ''while''] code)) +
              int (if language = lit ''Python'' then length (findall isalnum [lit ''def''] code)
              else if language = lit ''Java'' then
                length (findall isalnum [lit ''public'', lit ''private'', lit ''protected''] code)
              else if language = lit ''C++'' then
                length (findall isalnum
                   [lit ''int'', lit ''void'', lit ''float'', lit ''double'', lit ''string''] code)
              else if language = lit ''JavaScript'' then
                length (findall isalnum [lit ''function''] code)
              else 0)))]"
  unfolding extract_general_features_def Let_def
  by (simp add: getitem_def py_add_int py_min_int)


lemma snippet_loops: "length (findall ascii_isalnum [lit ''for'', lit ''while''] looping_snippet) = 1"
  by code_simp
lemma snippet_functions: "length (findall ascii_isalnum [lit ''def''] looping_snippet) = 1"
  by code_simp
lemma extract_fields:
  "\<exists>L F :: nat.
     extract_general_features isalnum code language =
       Inr [''num_lines'' \<mapsto> PInt (int (length (split 10 code))),
            ''num_loops'' \<mapsto> PInt (int L),
            ''num_functions'' \<mapsto> PInt (int F),
            ''has_try_except'' \<mapsto>
              PBool (search isalnum [lit ''try'', lit ''catch'', lit ''except''] code \<noteq> None),
            ''nested_depth'' \<mapsto> PInt (int (count code 123)),
            ''avg_var_name_length'' \<mapsto> PInt 5,
            ''complexity_score'' \<mapsto> PInt (min 10 (int L + int F))]"
  unfolding extract_shape by (intro exI) (rule refl)

lemma snippet_lines: "length (split 10 looping_snippet) = 6"
  by code_simp

lemma snippet_try:
  "search ascii_isalnum [lit ''try'', lit ''catch'', lit ''except''] looping_snippet \<noteq> None"
  by code_simp

lemma snippet_braces: "count looping_snippet 123 = 0"
  by code_simp

lemma snippet_extracted:
  "extract_general_features ascii_isalnum looping_snippet (lit ''Python'') = Inr snippet_features"
  unfolding extract_shape snippet_features_def
  by (simp add: snippet_lines snippet_loops snippet_functions snippet_try snippet_braces)
text \<open>
  Claim C7. For every code string and every language, the record that
  \<open>extract_general_features\<close> returns has \<open>complexity_score\<close> equal to
  \<open>min(10, num_loops + num_functions)\<close>, and that value lies between 0 and 10.
\<close>

theorem complexity_score_capped_sum:
  "\<exists>features loops functions.
     extract_general_features isalnum code language = Inr features
     \<and> features ''num_loops'' = Some (PInt loops)
     \<and> features ''num_functions'' = Some (PInt functions)
     \<and> features ''complexity_score'' = Some (PInt (min 10 (loops + functions)))
     \<and> 0 \<le> min 10 (loops + functions) \<and> min 10 (loops + functions) \<le> 10"
proof -
  obtain L F :: nat and features where
    ex: "extract_general_features isalnum code language = Inr features"
    and nl: "features ''num_loops'' = Some (PInt (int L))"
    and nf: "features ''num_functions'' = Some (PInt (int F))"
    and cs: "features ''complexity_score'' = Some (PInt (min 10 (int L + int F)))"
    using extract_fields [of isalnum code language] by auto
  have "0 \<le> min 10 (int L + int F)" and "min 10 (int L + int F) \<le> 10"
    by simp_all
  with ex nl nf cs show ?thesis
    by blast
qed

theorem complexity_score_capped_sum_witness:
  "\<exists>features.
     extract_general_features ascii_isalnum looping_snippet (lit ''Python'') = Inr features
     \<and> features ''num_loops'' = Some (PInt 1)
     \<and> features ''num_functions'' = Some (PInt 1)
     \<and> features ''complexity_score'' = Some (PInt 2)"
  using complexity_score_capped_sum [of ascii_isalnum looping_snippet "lit ''Python''"]
  by (auto simp: extract_shape snippet_loops snippet_functions)

text \<open>
  Claim C8. \<open>extract_general_features\<close> is total: for every code string and every
  language it raises nothing and returns a record whose keys are exactly the seven
  feature names, with the four counts non-negative integers, \<open>has_try_except\<close> a
  boolean, \<open>avg_var_name_length\<close> the number 5 (the integer literal of the source,
  which Python accepts wherever a float is expected) and \<open>complexity_score\<close> an
  integer between 0 and 10. No value is \<open>None\<close>.
\<close>

theorem extract_total_and_populated:
  "\<exists>features num_lines num_functions num_loops nested_depth has_try_except complexity_score.
     extract_general_features isalnum code language = Inr features
     \<and> dom features = {''num_lines'', ''num_functions'', ''num_loops'', ''nested_depth'',
          ''has_try_except'', ''avg_var_name_length'', ''complexity_score''}
     \<and> features ''num_lines'' = Some (PInt num_lines) \<and> 0 \<le> num_lines
     \<and> features ''num_functions'' = Some (PInt num_functions) \<and> 0 \<le> num_functions
     \<and> features ''num_loops'' = Some (PInt num_loops) \<and> 0 \<le> num_loops
     \<and> features ''nested_depth'' = Some (PInt nested_depth) \<and> 0 \<le> nested_depth
     \<and> features ''has_try_except'' = Some (PBool has_try_except)
     \<and> features ''avg_var_name_length'' = Some (PInt 5)
     \<and> features ''complexity_score'' = Some (PInt complexity_score)
     \<and> 0 \<le> complexity_score \<and> complexity_score \<le> 10"
proof -
  obtain L F :: nat and features where
    ex: "extract_general_features isalnum code language = Inr features"
    and f: "features = [''num_lines'' \<mapsto> PInt (int (length (split 10 code))),
            ''num_loops'' \<mapsto> PInt (int L),
            ''num_functions'' \<mapsto> PInt (int F),
            ''has_try_except'' \<mapsto>
              PBool (search isalnum [lit ''try'', lit ''catch'', lit ''except''] code \<noteq> None),
            ''nested_depth'' \<mapsto> PInt (int (count code 123)),
            ''avg_var_name_length'' \<mapsto> PInt 5,
            ''complexity_score'' \<mapsto> PInt (min 10 (int L + int F))]"
    using extract_fields [of isalnum code language] by auto
  have d: "dom features = {''num_lines'', ''num_functions'', ''num_loops'', ''nested_depth'',
          ''has_try_except'', ''avg_var_name_length'', ''complexity_score''}"
    unfolding f by auto
  have "features ''num_lines'' = Some (PInt (int (length (split 10 code))))"
    and "features ''num_functions'' = Some (PInt (int F))"
    and "features ''num_loops'' = Some (PInt (int L))"
    and "features ''nested_depth'' = Some (PInt (int (count code 123)))"
    and "features ''has_try_except'' = Some (PBool (search isalnum [lit ''try'', lit ''catch'', lit ''except''] code \<noteq> None))"
    and "features ''avg_var_name_length'' = Some (PInt 5)"
    and "features ''complexity_score'' = Some (PInt (min 10 (int L + int F)))"
    unfolding f by simp_all
  moreover have "0 \<le> min 10 (int L + int F)" and "min 10 (int L + int F) \<le> 10"
    by simp_all
  ultimately show ?thesis
    using ex d by (intro exI conjI) (assumption | simp)+
qed

theorem extract_total_and_populated_witness:
  "extract_general_features ascii_isalnum looping_snippet (lit ''Python'') = Inr snippet_features
   \<and> dom snippet_features =
       {''num_lines'', ''num_functions'', ''num_loops'', ''nested_depth'',
        ''has_try_except'', ''avg_var_name_length'', ''complexity_score''}
   \<and> snippet_features ''complexity_score'' = Some (PInt 2)"
proof -
  from extract_total_and_populated [of ascii_isalnum looping_snippet "lit ''Python''"]
  obtain features where
    "extract_general_features ascii_isalnum looping_snippet (lit ''Python'') = Inr features"
    and keys: "dom features =
       {''num_lines'', ''num_functions'', ''num_loops'', ''nested_depth'',
        ''has_try_except'', ''avg_var_name_length'', ''complexity_score''}"
    by blast
  then have "features = snippet_features"
    by (simp add: snippet_extracted)
  with keys have "dom snippet_features =
       {''num_lines'', ''num_functions'', ''num_loops'', ''nested_depth'',
        ''has_try_except'', ''avg_var_name_length'', ''complexity_score''}"
    by simp
  moreover have "snippet_features ''complexity_score'' = Some (PInt 2)"
    by (simp add: snippet_features_def)
  ultimately show ?thesis
    using snippet_extracted by simp
qed

text \<open>
  Claim C10. For every code string and every language, \<open>num_lines\<close> is at least 1,
  and it is exactly 1 when the text has no newline (the empty text included).
\<close>

theorem num_lines_at_least_one:
  "\<exists>features num_lines.
     extract_general_features isalnum code language = Inr features
     \<and> features ''num_lines'' = Some (PInt num_lines)
     \<and> 1 \<le> num_lines
     \<and> (10 \<notin> set code \<longrightarrow> num_lines = 1)"
proof -
  have len: "length (split 10 code) = Suc (count code 10)"
    by (rule length_split)
  have one: "10 \<notin> set code \<Longrightarrow> count code 10 = 0"
    by (auto simp: count_def filter_empty_conv)
  obtain features where
    ex: "extract_general_features isalnum code language = Inr features"
    and n: "features ''num_lines'' = Some (PInt (int (length (split 10 code))))"
    using extract_fields [of isalnum code language] by auto
  from len one have "1 \<le> int (length (split 10 code))"
    and "10 \<notin> set code \<longrightarrow> int (length (split 10 code)) = 1"
    by simp_all
  with ex n show ?thesis
    by blast
qed

theorem num_lines_at_least_one_witness:
  "10 \<notin> set (lit ''x = 1'') \<and>
   (\<exists>features. extract_general_features ascii_isalnum (lit ''x = 1'') (lit ''Java'') = Inr features
      \<and> features ''num_lines'' = Some (PInt 1))"
  using num_lines_at_least_one [of ascii_isalnum "lit ''x = 1''" "lit ''Java''"]
  by (auto simp: lit_def)

section \<open>The score\<close>

lemma score_int:
  "features ''complexity_score'' = Some (PInt c) \<Longrightarrow>
     score features = Inr (PInt (max 0 (100 - c * 8)))"
  by (simp add: score_def getitem_def py_mul_int py_sub_int py_max_int)

text \<open>
  Claim C6. For every feature record (its \<open>complexity_score\<close> an integer between 0
  and 10), the score is \<open>max(0, 100 - complexity_score * 8)\<close>, it lies between 0 and
  100, and the lower clamp is never reached: the score is \<open>100 - complexity_score * 8\<close>
  itself and at least 20.
\<close>

theorem score_formula_and_range:
  assumes "features ''complexity_score'' = Some (PInt c)" and "0 \<le> c" and "c \<le> 10"
  shows "score features = Inr (PInt (max 0 (100 - c * 8)))
    \<and> 0 \<le> max 0 (100 - c * 8) \<and> max 0 (100 - c * 8) \<le> 100
    \<and> max 0 (100 - c * 8) = 100 - c * 8 \<and> 20 \<le> 100 - c * 8"
  using assms by (simp add: score_int)

theorem score_formula_and_range_witness:
  "snippet_features ''complexity_score'' = Some (PInt 2) \<and> (0::int) \<le> 2 \<and> (2::int) \<le> 10
   \<and> score snippet_features = Inr (PInt 84)"
  using score_formula_and_range [of snippet_features 2] by (simp add: snippet_features_def)

section \<open>Loading the model\<close>

lemma load_model_artifact: "artifact (snd (load_model w)) = artifact w"
  by (simp add: load_model_def split: artifact.splits)

lemma load_model_loads:
  "loads (snd (load_model w)) = (if artifact w = Missing then loads w else loads w + 1)"
  by (simp add: load_model_def split: artifact.splits)

lemma predict_bug_world: "snd (predict_bug features w) = snd (load_model w)"
  by (simp add: predict_bug_def split: prod.splits sum.splits list.splits)

text \<open>
  Claim C2, as the code has it. \<open>predict_bug\<close> calls \<open>load_model\<close> at its first
  line and keeps no handle between calls: over any sequence of requests the artifact on
  disk stays what it was, and \<open>joblib.load\<close> runs once for every request (never, while
  the file is missing), not once for the process.
\<close>

theorem model_loaded_on_every_request:
  "artifact (snd (predict_sequence requests w)) = artifact w
   \<and> loads (snd (predict_sequence requests w)) =
       (if artifact w = Missing then loads w else loads w + length requests)"
proof (induction requests arbitrary: w)
  case Nil
  show ?case by simp
next
  case (Cons features rest)
  obtain r w' where step: "predict_bug features w = (r, w')"
    by (cases "predict_bug features w")
  then have w': "w' = snd (load_model w)"
    using predict_bug_world [of features w] by simp
  have same: "artifact w' = artifact w"
    unfolding w' by (rule load_model_artifact)
  have count: "loads w' = (if artifact w = Missing then loads w else loads w + 1)"
    unfolding w' by (rule load_model_loads)
  obtain rs w'' where rest: "predict_sequence rest w' = (rs, w'')"
    by (cases "predict_sequence rest w'")
  from Cons.IH [of w'] rest same count
  have "artifact w'' = artifact w"
    and "loads w'' = (if artifact w = Missing then loads w else loads w + 1 + length rest)"
    by (simp_all split: if_splits)
  with step rest show ?case
    by simp
qed

text \<open>Two requests against a stored model load it twice.\<close>

theorem model_loaded_twice_counterexample:
  "loads (snd (predict_sequence [snippet_features, snippet_features]
      \<lparr>artifact = Pickled logical_model, loads = 0\<rparr>)) = 2"
  by (simp add: case_prod_beta predict_bug_world load_model_def)

section \<open>The classifier adapter\<close>

lemma predict_bug_success:
  assumes "fst (predict_bug features w) = Inr r"
  shows "\<exists>m row p ps probabilities.
     artifact w = Pickled m
     \<and> feature_vector features feature_order = Inr row
     \<and> predict m row = Inr (bug_type r)
     \<and> predict_proba m row = Inr (p # ps)
     \<and> label_probabilities 0 (p # ps) [] = Inr probabilities
     \<and> label r = (case BUG_LABELS (bug_type r) of None \<Rightarrow> lit ''Unknown'' | Some l \<Rightarrow> l)
     \<and> confidence r = round1 (fold max ps p * 100)
     \<and> suggestions r = (case BUG_SUGGESTIONS (bug_type r) of None \<Rightarrow> [] | Some xs \<Rightarrow> xs)
     \<and> all_probabilities r = probabilities"
  using assms
  by (auto simp: predict_bug_def load_model_def split: artifact.splits sum.splits list.splits)

lemma sample_row:
  "feature_vector snippet_features feature_order =
     Inr [PInt 6, PInt 1, PInt 1, PInt 0, PBool True, PInt 5, PInt 2]"
  by (simp add: feature_order_def snippet_features_def getitem_def)


lemma logical_run:
  "fst (predict_bug snippet_features \<lparr>artifact = Pickled logical_model, loads = 0\<rparr>) =
     Inr \<lparr>bug_type = 2, label = lit ''Logical Error'', confidence = 125 / 2,
          suggestions = the (BUG_SUGGESTIONS 2),
          all_probabilities =
            [(lit ''No Bug (Clean Code)'', 25 / 2), (lit ''Performance Issue'', 25 / 2),
             (lit ''Logical Error'', 125 / 2), (lit ''Code Smell'', 25 / 2)]\<rparr>"
  apply (simp add: predict_bug_def load_model_def sample_row logical_model_def)
  apply (simp add: BUG_LABELS_def BUG_SUGGESTIONS_def round1_def round_half_even_def lit_def)
  done


lemma clean_run:
  "fst (predict_bug snippet_features \<lparr>artifact = Pickled clean_model, loads = 0\<rparr>) =
     Inr \<lparr>bug_type = 0, label = lit ''No Bug (Clean Code)'', confidence = 75,
          suggestions = the (BUG_SUGGESTIONS 0),
          all_probabilities =
            [(lit ''No Bug (Clean Code)'', 75), (lit ''Performance Issue'', 25),
             (lit ''Logical Error'', 0), (lit ''Code Smell'', 0)]\<rparr>"
  apply (simp add: predict_bug_def load_model_def sample_row clean_model_def)
  apply (simp add: BUG_LABELS_def BUG_SUGGESTIONS_def round1_def round_half_even_def lit_def)
  done


text \<open>
  Claim C1, as the code has it. Whenever \<open>predict_bug\<close> returns a result, its
  \<open>bug_type\<close> is the class the model predicted for the feature row, and label and
  suggestions are looked up in the static tables: class 0 is "No Bug (Clean Code)" with
  2 suggestions, class 1 "Performance Issue", class 2 "Logical Error" and class 3
  "Code Smell" with 4 suggestions each, so every label carries between 2 and 4 of them.
\<close>

theorem label_and_suggestions_lookup:
  assumes "fst (predict_bug features w) = Inr r"
  shows "(\<exists>m row. artifact w = Pickled m \<and> feature_vector features feature_order = Inr row
            \<and> predict m row = Inr (bug_type r))
    \<and> (bug_type r = 0 \<longrightarrow> label r = lit ''No Bug (Clean Code)'' \<and> length (suggestions r) = 2)
    \<and> (bug_type r = 1 \<longrightarrow> label r = lit ''Performance Issue'' \<and> length (suggestions r) = 4)
    \<and> (bug_type r = 2 \<longrightarrow> label r = lit ''Logical Error'' \<and> length (suggestions r) = 4)
    \<and> (bug_type r = 3 \<longrightarrow> label r = lit ''Code Smell'' \<and> length (suggestions r) = 4)
    \<and> (bug_type r \<in> {0, 1, 2, 3} \<longrightarrow>
          BUG_LABELS (bug_type r) = Some (label r)
          \<and> BUG_SUGGESTIONS (bug_type r) = Some (suggestions r)
          \<and> 2 \<le> length (suggestions r) \<and> length (suggestions r) \<le> 4)"
proof -
  from predict_bug_success [OF assms] obtain m row where
    m: "artifact w = Pickled m" "feature_vector features feature_order = Inr row"
       "predict m row = Inr (bug_type r)"
    and l: "label r = (case BUG_LABELS (bug_type r) of None \<Rightarrow> lit ''Unknown'' | Some l \<Rightarrow> l)"
    and s: "suggestions r = (case BUG_SUGGESTIONS (bug_type r) of None \<Rightarrow> [] | Some xs \<Rightarrow> xs)"
    by blast
  from m have first: "\<exists>m row. artifact w = Pickled m
      \<and> feature_vector features feature_order = Inr row \<and> predict m row = Inr (bug_type r)"
    by blast
  have rest: "(bug_type r = 0 \<longrightarrow> label r = lit ''No Bug (Clean Code)'' \<and> length (suggestions r) = 2)
    \<and> (bug_type r = 1 \<longrightarrow> label r = lit ''Performance Issue'' \<and> length (suggestions r) = 4)
    \<and> (bug_type r = 2 \<longrightarrow> label r = lit ''Logical Error'' \<and> length (suggestions r) = 4)
    \<and> (bug_type r = 3 \<longrightarrow> label r = lit ''Code Smell'' \<and> length (suggestions r) = 4)
    \<and> (bug_type r \<in> {0, 1, 2, 3} \<longrightarrow>
          BUG_LABELS (bug_type r) = Some (label r)
          \<and> BUG_SUGGESTIONS (bug_type r) = Some (suggestions r)
          \<and> 2 \<le> length (suggestions r) \<and> length (suggestions r) \<le> 4)"
    unfolding l s by (auto simp: BUG_LABELS_def BUG_SUGGESTIONS_def)
  from first rest show ?thesis
    by (rule conjI)
qed

theorem label_and_suggestions_lookup_witness:
  "\<exists>r. fst (predict_bug snippet_features \<lparr>artifact = Pickled logical_model, loads = 0\<rparr>) = Inr r
     \<and> bug_type r = 2 \<and> label r = lit ''Logical Error'' \<and> length (suggestions r) = 4"
  using label_and_suggestions_lookup [OF logical_run] logical_run by simp

text \<open>For class 0 the label is not "No Bug".\<close>

theorem label_of_class_0_counterexample:
  "map_sum id bug_type
     (fst (predict_bug snippet_features \<lparr>artifact = Pickled clean_model, loads = 0\<rparr>)) = Inr 0
   \<and> map_sum id label
     (fst (predict_bug snippet_features \<lparr>artifact = Pickled clean_model, loads = 0\<rparr>))
       = Inr (lit ''No Bug (Clean Code)'')
   \<and> lit ''No Bug (Clean Code)'' \<noteq> lit ''No Bug''"
  by (simp add: clean_run) (simp add: lit_def)













section \<open>The handler without a model\<close>

lemma score_of_extract:
  assumes "extract_general_features isalnum code language = Inr features"
  shows "\<exists>v. score features = Inr (PInt v) \<and> 20 \<le> v \<and> v \<le> 100"
proof -
  obtain L F :: nat where
    "features ''complexity_score'' = Some (PInt (min 10 (int L + int F)))"
    using extract_fields [of isalnum code language] assms by auto
  then have "score features = Inr (PInt (max 0 (100 - min 10 (int L + int F) * 8)))"
    by (rule score_int)
  then show ?thesis
    by (auto simp: min_def)
qed

lemma snippet_nonblank: "strip looping_snippet \<noteq> []"
  by (simp add: strip_def looping_snippet_def lit_def isspace_def)

lemma snippet_parsed: "sample_parse looping_snippet = Parsed"
  by (simp add: sample_parse_def looping_snippet_def broken_def_def deep_negation_def lit_def)

lemma snippet_executed: "sample_exec safe_builtins looping_snippet = Completed"
  by (simp add: sample_exec_def looping_snippet_def lit_def)

text \<open>
  Claim C4. If the model artifact is missing or cannot be loaded, \<open>predict_bug\<close> fails
  (with \<open>FileNotFoundError\<close> for a missing file, with the loader's exception
  otherwise); the handler catches the failure and completes: given that the syntax and
  the runtime step returned, the analysis record is stored with no prediction, with those
  two results unchanged, and with the features and the score of the text.
\<close>

theorem model_unavailable_degrades:
  assumes unavailable: "artifact w = Missing \<or> artifact w = Corrupt e"
    and nonblank: "strip code_input \<noteq> []"
    and static: "syntax_step h code_input language = Returns syntax_result"
    and dynamic: "runtime_step h code_input language = Returns runtime_result"
  shows "(\<exists>err. fst (predict_bug any_features w) = Inl err
            \<and> (artifact w = Missing \<longrightarrow> ex_type err = lit ''FileNotFoundError'')
            \<and> (artifact w = Corrupt e \<longrightarrow> err = e))
    \<and> (\<exists>result w'.
          analyze_code h code_input language (s, w) =
            Returns (\<lparr>analysis_data = Some result, history = history s @ [result]\<rparr>, w')
          \<and> a_prediction result = None
          \<and> a_syntax result = syntax_result
          \<and> a_runtime result = runtime_result
          \<and> a_language result = language
          \<and> extract_general_features (unicode_isalnum h) code_input language
              = Inr (a_features result)
          \<and> score (a_features result) = Inr (a_score result))"
proof -
  obtain features where
    ex: "extract_general_features (unicode_isalnum h) code_input language = Inr features"
    using extract_fields [of "unicode_isalnum h" code_input language] by blast
  obtain v where sc: "score features = Inr (PInt v)"
    using score_of_extract [OF ex] by blast
  define err where
    "err = (case artifact w of
              Missing \<Rightarrow>
                FileNotFoundError (lit (''Trained model not found! Run '' @ [CHR 0x27]
                  @ ''python train_model.py'' @ [CHR 0x27] @ '' first.''))
            | _ \<Rightarrow> e)"
  define w' where "w' = snd (load_model w)"
  have failed: "predict_bug fs w = (Inl err, w')" for fs
    using unavailable
    by (auto simp: err_def w'_def predict_bug_def load_model_def)
  have missing: "artifact w = Missing \<longrightarrow> ex_type err = lit ''FileNotFoundError''"
    by (simp add: err_def FileNotFoundError_def)
  have corrupt: "artifact w = Corrupt e \<longrightarrow> err = e"
    by (simp add: err_def)
  define result where
    "result = \<lparr>a_time = now h, a_language = language, a_syntax = syntax_result,
       a_runtime = runtime_result, a_features = features, a_prediction = None,
       a_score = PInt v\<rparr>"
  have "analyze_code h code_input language (s, w) =
      Returns (\<lparr>analysis_data = Some result, history = history s @ [result]\<rparr>, w')"
    unfolding analyze_code_def result_def
    using nonblank static dynamic ex sc failed [of features] by (simp add: Let_def)
  moreover have "a_prediction result = None" "a_syntax result = syntax_result"
    "a_runtime result = runtime_result" "a_language result = language"
    "extract_general_features (unicode_isalnum h) code_input language = Inr (a_features result)"
    "score (a_features result) = Inr (a_score result)"
    unfolding result_def using ex sc by simp_all
  ultimately have second: "\<exists>result w'.
          analyze_code h code_input language (s, w) =
            Returns (\<lparr>analysis_data = Some result, history = history s @ [result]\<rparr>, w')
          \<and> a_prediction result = None
          \<and> a_syntax result = syntax_result
          \<and> a_runtime result = runtime_result
          \<and> a_language result = language
          \<and> extract_general_features (unicode_isalnum h) code_input language
              = Inr (a_features result)
          \<and> score (a_features result) = Inr (a_score result)"
    by blast
  from failed [of any_features] missing corrupt
  have first: "\<exists>err. fst (predict_bug any_features w) = Inl err
            \<and> (artifact w = Missing \<longrightarrow> ex_type err = lit ''FileNotFoundError'')
            \<and> (artifact w = Corrupt e \<longrightarrow> err = e)"
    by auto
  from first second show ?thesis
    by (rule conjI)
qed

theorem model_unavailable_degrades_witness:
  "artifact \<lparr>artifact = Missing, loads = 0\<rparr> = Missing
   \<and> strip looping_snippet \<noteq> []
   \<and> syntax_step sample_host looping_snippet (lit ''Python'')
       = Returns [''valid'' \<mapsto> PBool True, ''error'' \<mapsto> PNone]
   \<and> runtime_step sample_host looping_snippet (lit ''Python'')
       = Returns [''success'' \<mapsto> PBool True, ''error'' \<mapsto> PNone]
   \<and> (\<exists>result w'.
         analyze_code sample_host looping_snippet (lit ''Python'')
             (\<lparr>analysis_data = None, history = []\<rparr>, \<lparr>artifact = Missing, loads = 0\<rparr>) =
           Returns (\<lparr>analysis_data = Some result, history = [result]\<rparr>, w')
         \<and> a_prediction result = None
         \<and> a_syntax result = [''valid'' \<mapsto> PBool True, ''error'' \<mapsto> PNone]
         \<and> a_runtime result = [''success'' \<mapsto> PBool True, ''error'' \<mapsto> PNone])"
proof -
  have static: "syntax_step sample_host looping_snippet (lit ''Python'')
       = Returns [''valid'' \<mapsto> PBool True, ''error'' \<mapsto> PNone]"
    by (simp add: syntax_step_def check_syntax_def sample_host_def snippet_parsed)
  have dynamic: "runtime_step sample_host looping_snippet (lit ''Python'')
       = Returns [''success'' \<mapsto> PBool True, ''error'' \<mapsto> PNone]"
    by (simp add: runtime_step_def run_code_safely_def sample_host_def snippet_executed)
  have missing: "artifact \<lparr>artifact = Missing, loads = 0\<rparr> = Missing
      \<or> artifact \<lparr>artifact = Missing, loads = 0\<rparr> = Corrupt undefined"
    by simp
  from model_unavailable_degrades [OF missing snippet_nonblank static dynamic,
      of Map.empty "\<lparr>analysis_data = None, history = []\<rparr>"]
    static dynamic snippet_nonblank
  show ?thesis
    by auto
qed

section \<open>The restricted executor\<close>




section \<open>The static checker\<close>

lemma broken_is_not_null: "broken_def \<noteq> [0]"
  by (simp add: broken_def_def lit_def)

text \<open>
  Claim C9, as the code has it. \<open>check_syntax\<close> returns \<open>valid = True,
  error = None\<close> when the text parses; when the parser raises \<open>SyntaxError\<close> it
  returns \<open>valid = False\<close> and the message "Syntax Error at line ", the line number of
  the exception, ": " and its diagnostic, where the line number reads "None" if the
  exception carries none. An exception of any other class that the parser raises is not
  caught and leaves the function; these are the only exceptions that do.
\<close>

theorem check_syntax_outcomes:
  "(parse code = Parsed \<longrightarrow>
      check_syntax parse code = Returns [''valid'' \<mapsto> PBool True, ''error'' \<mapsto> PNone])
   \<and> (\<forall>n msg. parse code = Raised_SyntaxError (Some n) msg \<longrightarrow>
         check_syntax parse code =
           Returns [''valid'' \<mapsto> PBool False,
                    ''error'' \<mapsto> PStr (lit ''Syntax Error at line '' @ str_int n @ lit '': '' @ msg)])
   \<and> (\<forall>msg. parse code = Raised_SyntaxError None msg \<longrightarrow>
         check_syntax parse code =
           Returns [''valid'' \<mapsto> PBool False,
                    ''error'' \<mapsto> PStr (lit ''Syntax Error at line None: '' @ msg)])
   \<and> (\<forall>e. check_syntax parse code = Propagates e \<longleftrightarrow> parse code = Raised_other e)
   \<and> check_syntax parse code \<noteq> Hangs"
proof (cases "parse code")
  case Parsed
  then show ?thesis
    by (simp add: check_syntax_def)
next
  case (Raised_SyntaxError lineno msg)
  then show ?thesis
    by (cases lineno) (simp_all add: check_syntax_def lit_def)
next
  case (Raised_other e)
  then show ?thesis
    by (auto simp: check_syntax_def)
qed

theorem check_syntax_outcomes_witness:
  "sample_parse looping_snippet = Parsed
   \<and> check_syntax sample_parse looping_snippet
       = Returns [''valid'' \<mapsto> PBool True, ''error'' \<mapsto> PNone]
   \<and> sample_parse broken_def = Raised_SyntaxError (Some 1) (lit ''invalid syntax'')
   \<and> check_syntax sample_parse broken_def
       = Returns [''valid'' \<mapsto> PBool False,
                  ''error'' \<mapsto> PStr (lit ''Syntax Error at line 1: invalid syntax'')]"
proof -
  have broken: "sample_parse broken_def = Raised_SyntaxError (Some 1) (lit ''invalid syntax'')"
    by (simp add: sample_parse_def)
  have shown: "lit ''Syntax Error at line '' @ str_int 1 @ lit '': '' @ lit ''invalid syntax''
      = lit ''Syntax Error at line 1: invalid syntax''"
    by (simp add: lit_def str_int_def)
  from check_syntax_outcomes [of sample_parse looping_snippet] snippet_parsed
  have first: "check_syntax sample_parse looping_snippet
       = Returns [''valid'' \<mapsto> PBool True, ''error'' \<mapsto> PNone]"
    by simp
  from check_syntax_outcomes [of sample_parse broken_def] broken
  have "check_syntax sample_parse broken_def
       = Returns [''valid'' \<mapsto> PBool False,
                  ''error'' \<mapsto> PStr (lit ''Syntax Error at line '' @ str_int 1 @ lit '': ''
                     @ lit ''invalid syntax'')]"
    by simp
  with snippet_parsed broken first shown show ?thesis
    by simp
qed

text \<open>
  The parser's \<open>RecursionError\<close> on deeply nested text leaves the function, and for a
  null character the message names no line.
\<close>

theorem check_syntax_counterexample:
  "check_syntax sample_parse deep_negation =
     Propagates \<lparr>ex_type = lit ''RecursionError'',
        ex_msg = lit ''maximum recursion depth exceeded during ast construction'',
        ex_is_Exception = True\<rparr>
   \<and> check_syntax sample_parse [0] =
     Returns [''valid'' \<mapsto> PBool False,
              ''error'' \<mapsto> PStr (lit
                 ''Syntax Error at line None: source code string cannot contain null bytes'')]"
proof -
  have "deep_negation \<noteq> broken_def" and "deep_negation \<noteq> [0]"
    by (simp_all add: deep_negation_def broken_def_def lit_def)
  then have deep: "sample_parse deep_negation =
     Raised_other \<lparr>ex_type = lit ''RecursionError'',
        ex_msg = lit ''maximum recursion depth exceeded during ast construction'',
        ex_is_Exception = True\<rparr>"
    by (simp add: sample_parse_def)
  have null: "sample_parse [0] =
      Raised_SyntaxError None (lit ''source code string cannot contain null bytes'')"
    using broken_is_not_null by (simp add: sample_parse_def)
  have shown: "lit ''Syntax Error at line '' @ lit ''None'' @ lit '': ''
        @ lit ''source code string cannot contain null bytes''
      = lit ''Syntax Error at line None: source code string cannot contain null bytes''"
    by (simp add: lit_def)
  from deep null shown show ?thesis
    by (simp add: check_syntax_def)
qed

end
